theory Spec2Isabelle
  imports Main
begin

section \<open>Strings of the host language\<close>

text \<open>
  A JavaScript string is a sequence of 16-bit code units. The model uses \<^typ>\<open>string\<close>
  and reads each \<^typ>\<open>char\<close> as the code unit of the same number, so it covers the
  strings whose code units lie in U+0000 .. U+00FF (ASCII and Latin-1); on these,
  \<open>length\<close>, \<open>===\<close>, \<open>trim\<close>, \<open>toLowerCase\<close> and the character classes of
  the regular expressions are as below. Code units above U+00FF are outside the model.
\<close>

definition codeUnit :: "char \<Rightarrow> nat" where
  "codeUnit c = of_char c"

text \<open>
  White space and line terminators of ECMAScript, the characters that \<open>trim\<close> strips and
  that \<open>\s\<close> matches: TAB, LF, VT, FF, CR, SPACE and NO-BREAK SPACE in this range.
\<close>

definition isWhiteSpace :: "char \<Rightarrow> bool" where
  "isWhiteSpace c = (codeUnit c \<in> {9, 10, 11, 12, 13, 32, 160})"

definition trim :: "string \<Rightarrow> string" where
  "trim s = rev (dropWhile isWhiteSpace (rev (dropWhile isWhiteSpace s)))"

text \<open>
  \<open>toLowerCase\<close>: A-Z and the Latin-1 capitals U+00C0 .. U+00DE (the multiplication sign
  U+00D7 apart) move up by 32; every other code unit of the range is kept.
\<close>

definition lowerChar :: "char \<Rightarrow> char" where
  "lowerChar c =
     (let n = codeUnit c
      in if (65 \<le> n \<and> n \<le> 90) \<or> (192 \<le> n \<and> n \<le> 222 \<and> n \<noteq> 215)
         then char_of (n + 32) else c)"

definition toLowerCase :: "string \<Rightarrow> string" where
  "toLowerCase s = map lowerChar s"

subsection \<open>Character classes and regular expressions\<close>

text \<open>The classes \<open>[A-Z]\<close>, \<open>[a-z]\<close>, \<open>[0-9]\<close> of the source.\<close>

definition inRange :: "char \<Rightarrow> char \<Rightarrow> char \<Rightarrow> bool" where
  "inRange lo hi c = (codeUnit lo \<le> codeUnit c \<and> codeUnit c \<le> codeUnit hi)"

definition upperClass :: "char \<Rightarrow> bool" where
  "upperClass c = inRange CHR ''A'' CHR ''Z'' c"

definition lowerClass :: "char \<Rightarrow> bool" where
  "lowerClass c = inRange CHR ''a'' CHR ''z'' c"

definition digitClass :: "char \<Rightarrow> bool" where
  "digitClass c = inRange CHR ''0'' CHR ''9'' c"

text \<open>\<open>[a-zA-Z\s]\<close>\<close>

definition nameClass :: "char \<Rightarrow> bool" where
  "nameClass c = (lowerClass c \<or> upperClass c \<or> isWhiteSpace c)"

text \<open>\<open>[^\s@]\<close>\<close>

definition emailClass :: "char \<Rightarrow> bool" where
  "emailClass c = (\<not> (isWhiteSpace c \<or> c = CHR ''@''))"

text \<open>\<open>[!@#$%^&*(),.?":{}|<>]\<close>; the double quote is written by its code 0x22.\<close>

definition specialClass :: "char \<Rightarrow> bool" where
  "specialClass c = (c \<in> set (''!@#$%^&*(),.?'' @ [CHR 0x22] @ '':{}|<>''))"

text \<open>
  The anchored expressions of the source are sequences of single characters taken from a
  class and of \<open>+\<close>-repetitions of a class. \<open>matchesWhole\<close> is \<open>/^...$/.test\<close>: the
  whole string is consumed, and a repetition may stop after any of its characters
  (backtracking).
\<close>

datatype atom = One "char \<Rightarrow> bool" | Many1 "char \<Rightarrow> bool"

fun matchesWhole :: "atom list \<Rightarrow> string \<Rightarrow> bool" where
  "matchesWhole [] s = (s = [])"
| "matchesWhole (a # as) [] = False"
| "matchesWhole (One p # as) (c # cs) = (p c \<and> matchesWhole as cs)"
| "matchesWhole (Many1 p # as) (c # cs) =
     (p c \<and> (matchesWhole (Many1 p # as) cs \<or> matchesWhole as cs))"

text \<open>\<open>/[...]/.test\<close> without anchors: some character of the string is in the class.\<close>

definition containsClass :: "(char \<Rightarrow> bool) \<Rightarrow> string \<Rightarrow> bool" where
  "containsClass p s = list_ex p s"

text \<open>\<open>/^[a-zA-Z\s]+$/\<close> and \<open>/^[^\s@]+@[^\s@]+\.[^\s@]+$/\<close>\<close>

definition nameRegex :: "atom list" where
  "nameRegex = [Many1 nameClass]"

definition emailRegex :: "atom list" where
  "emailRegex =
     [Many1 emailClass, One (\<lambda>c. c = CHR ''@''), Many1 emailClass,
      One (\<lambda>c. c = CHR ''.''), Many1 emailClass]"

section \<open>The form validator\<close>

text \<open>\<open>FieldName\<close> and \<open>FormFields\<close> of the source.\<close>

datatype FieldName = Name | Email | Password | ConfirmPassword

record FormFields =
  name :: string
  email :: string
  password :: string
  confirmPassword :: string

text \<open>\<open>formData[field]\<close>\<close>

fun getField :: "FormFields \<Rightarrow> FieldName \<Rightarrow> string" where
  "getField d Name = name d"
| "getField d Email = email d"
| "getField d Password = password d"
| "getField d ConfirmPassword = confirmPassword d"

text \<open>
  The item \<open>registeredEmails\<close> of the browser's local storage: absent (\<open>None\<close>), or the
  array of strings that \<open>JSON.parse\<close> reads back from what \<open>JSON.stringify\<close> wrote.
\<close>

type_synonym storage = "string list option"

text \<open>
  What the validator reads and writes: the values of the four inputs, the class list of
  each input, the text of each error span, and the local storage. The elements looked up
  by id are taken to exist.
\<close>

record page =
  inputValue :: "FieldName \<Rightarrow> string"
  inputClassList :: "FieldName \<Rightarrow> string list"
  errorTextContent :: "FieldName \<Rightarrow> string"
  localStorage :: storage

text \<open>\<open>classList.add\<close> and \<open>classList.remove\<close>: a class list holds a token once.\<close>

definition classAdd :: "string \<Rightarrow> string list \<Rightarrow> string list" where
  "classAdd t ts = (if t \<in> set ts then ts else ts @ [t])"

definition classRemove :: "string \<Rightarrow> string list \<Rightarrow> string list" where
  "classRemove t ts = filter (\<lambda>u. u \<noteq> t) ts"

text \<open>
  A rule's \<open>validate\<close> takes the value and the optional form data; the closure of the
  third email rule also reads the local storage through \<open>this\<close>, so the storage is an
  argument of every predicate here.
\<close>

record ValidationRule =
  validate :: "storage \<Rightarrow> string \<Rightarrow> FormFields option \<Rightarrow> bool"
  message :: string

definition getRegisteredEmails :: "storage \<Rightarrow> string list" where
  "getRegisteredEmails stored = (case stored of Some emails \<Rightarrow> emails | None \<Rightarrow> [])"

definition isEmailRegistered :: "storage \<Rightarrow> string \<Rightarrow> bool" where
  "isEmailRegistered st e = (toLowerCase e \<in> set (getRegisteredEmails st))"

definition saveEmail :: "string \<Rightarrow> page \<Rightarrow> page" where
  "saveEmail e pg =
     (let registeredEmails = getRegisteredEmails (localStorage pg)
      in if toLowerCase e \<notin> set registeredEmails
         then pg\<lparr>localStorage := Some (registeredEmails @ [toLowerCase e])\<rparr>
         else pg)"

text \<open>The rule table built by the constructor.\<close>

fun rules :: "FieldName \<Rightarrow> ValidationRule list" where
  "rules Name =
     [\<lparr>validate = (\<lambda>st v d. length (trim v) > 0), message = ''Name is required''\<rparr>,
      \<lparr>validate = (\<lambda>st v d. length (trim v) \<ge> 2),
       message = ''Name must be at least 2 characters long''\<rparr>,
      \<lparr>validate = (\<lambda>st v d. matchesWhole nameRegex (trim v)),
       message = ''Name can only contain letters and spaces''\<rparr>]"
| "rules Email =
     [\<lparr>validate = (\<lambda>st v d. length (trim v) > 0), message = ''Email is required''\<rparr>,
      \<lparr>validate = (\<lambda>st v d. matchesWhole emailRegex (trim v)),
       message = ''Please enter a valid email address''\<rparr>,
      \<lparr>validate = (\<lambda>st v d. \<not> isEmailRegistered st (trim v)),
       message = ''This email is already registered''\<rparr>]"
| "rules Password =
     [\<lparr>validate = (\<lambda>st v d. length v > 0), message = ''Password is required''\<rparr>,
      \<lparr>validate = (\<lambda>st v d. length v \<ge> 8),
       message = ''Password must be at least 8 characters long''\<rparr>,
      \<lparr>validate = (\<lambda>st v d. containsClass upperClass v),
       message = ''Password must contain at least one uppercase letter''\<rparr>,
      \<lparr>validate = (\<lambda>st v d. containsClass lowerClass v),
       message = ''Password must contain at least one lowercase letter''\<rparr>,
      \<lparr>validate = (\<lambda>st v d. containsClass digitClass v),
       message = ''Password must contain at least one number''\<rparr>,
      \<lparr>validate = (\<lambda>st v d. containsClass specialClass v),
       message = ''Password must contain at least one special character''\<rparr>]"
| "rules ConfirmPassword =
     [\<lparr>validate = (\<lambda>st v d. length v > 0), message = ''Please confirm your password''\<rparr>,
      \<lparr>validate = (\<lambda>st v d. case d of Some data \<Rightarrow> v = password data | None \<Rightarrow> False),
       message = ''Passwords do not match''\<rparr>]"

definition fields :: "FieldName list" where
  "fields = [Name, Email, Password, ConfirmPassword]"

definition getFormData :: "page \<Rightarrow> FormFields" where
  "getFormData pg =
     \<lparr>name = inputValue pg Name, email = inputValue pg Email,
      password = inputValue pg Password, confirmPassword = inputValue pg ConfirmPassword\<rparr>"

text \<open>
  The loop of \<open>validateField\<close> over the rules of a field: the message of the first rule
  whose predicate is false (the \<open>return false\<close> inside the loop), or \<open>None\<close> when the
  loop runs to its end.
\<close>

fun firstFailure :: "ValidationRule list \<Rightarrow> storage \<Rightarrow> string \<Rightarrow> FormFields option \<Rightarrow> string option" where
  "firstFailure [] st v d = None"
| "firstFailure (rule # rest) st v d =
     (if \<not> validate rule st v d then Some (message rule) else firstFailure rest st v d)"

definition validateField :: "FieldName \<Rightarrow> page \<Rightarrow> bool \<times> page" where
  "validateField field pg =
     (let formData = getFormData pg;
          v = getField formData field
      in case firstFailure (rules field) (localStorage pg) v (Some formData) of
           Some msg \<Rightarrow>
             (False,
              pg\<lparr>inputClassList := (inputClassList pg)
                     (field := classRemove ''success'' (classAdd ''error'' (inputClassList pg field))),
                 errorTextContent := (errorTextContent pg)(field := msg)\<rparr>)
         | None \<Rightarrow>
             (True,
              pg\<lparr>inputClassList := (inputClassList pg)
                     (field := classAdd ''success'' (classRemove ''error'' (inputClassList pg field))),
                 errorTextContent := (errorTextContent pg)(field := [])\<rparr>))"

text \<open>
  \<open>Array.prototype.every\<close> with a callback that changes the page: it calls the callback
  on the elements in order and returns \<open>false\<close> at the first call that returns
  \<open>false\<close>, without calling it on the elements after that one.
\<close>

fun every :: "('a \<Rightarrow> 's \<Rightarrow> bool \<times> 's) \<Rightarrow> 'a list \<Rightarrow> 's \<Rightarrow> bool \<times> 's" where
  "every cb [] s = (True, s)"
| "every cb (x # xs) s =
     (case cb x s of (True, s') \<Rightarrow> every cb xs s' | (False, s') \<Rightarrow> (False, s'))"

definition validateAll :: "page \<Rightarrow> bool \<times> page" where
  "validateAll pg = every validateField fields pg"

subsection \<open>Outcomes\<close>

text \<open>
  The outcome of a field, read off \<open>validateField\<close>: \<open>Valid\<close> when it returns
  \<open>true\<close>, and \<open>Invalid\<close> with the text it has put into the field's error span when it
  returns \<open>false\<close>.
\<close>

datatype FieldOutcome = Valid | Invalid string

definition evaluateField :: "FieldName \<Rightarrow> page \<Rightarrow> FieldOutcome" where
  "evaluateField field pg =
     (case validateField field pg of
        (True, pg') \<Rightarrow> Valid
      | (False, pg') \<Rightarrow> Invalid (errorTextContent pg' field))"

text \<open>
  A page as it is after loading, with a record typed into the four inputs: no class on
  any input and no error text.
\<close>

definition loadedPage :: "FormFields \<Rightarrow> storage \<Rightarrow> page" where
  "loadedPage d st =
     \<lparr>inputValue = getField d, inputClassList = (\<lambda>f. []),
      errorTextContent = (\<lambda>f. []), localStorage = st\<rparr>"

subsection \<open>Notions used in the statements\<close>

text \<open>The fields that come before a field in the fixed order of \<open>fields\<close>.\<close>

definition fieldsBefore :: "FieldName \<Rightarrow> FieldName list" where
  "fieldsBefore g = takeWhile (\<lambda>f. f \<noteq> g) fields"

text \<open>
  The specification's wording of the third name rule, \<open>^[A-Za-z ]+$\<close>: letters and the
  space character only. It is kept apart from \<open>nameRegex\<close>, which is the expression of
  the source.
\<close>

definition specNameClass :: "char \<Rightarrow> bool" where
  "specNameClass c = (upperClass c \<or> lowerClass c \<or> c = CHR '' '')"

definition specNameRegex :: "atom list" where
  "specNameRegex = [Many1 specNameClass]"

text \<open>
  A lowercase string is one that \<open>toLowerCase\<close> leaves as it is; a registry is well
  formed when its entries are lowercase and no entry occurs twice.
\<close>

definition isLowercase :: "string \<Rightarrow> bool" where
  "isLowercase s = (toLowerCase s = s)"

definition registryOk :: "storage \<Rightarrow> bool" where
  "registryOk st =
     (list_all isLowercase (getRegisteredEmails st) \<and> distinct (getRegisteredEmails st))"

section \<open>Properties of the loop over the rules\<close>

lemma getField_getFormData: "getField (getFormData pg) f = inputValue pg f"
  by (cases f) (simp_all add: getFormData_def)

lemma firstFailure_find:
  "firstFailure rs st v d = map_option message (find (\<lambda>r. \<not> validate r st v d) rs)"
  by (induction rs) simp_all

lemma firstFailure_append:
  "list_all (\<lambda>r. validate r st v d) pre \<Longrightarrow> \<not> validate r st v d \<Longrightarrow>
   firstFailure (pre @ r # post) st v d = Some (message r)"
  by (induction pre) simp_all

lemma firstFailure_None:
  "firstFailure rs st v d = None \<longleftrightarrow> list_all (\<lambda>r. validate r st v d) rs"
  by (induction rs) simp_all

text \<open>
  \<open>validateField\<close> in terms of the loop: what it returns, what it leaves alone, and what
  it writes for its own field.
\<close>

lemma validateField_fst:
  "fst (validateField f pg) =
     (firstFailure (rules f) (localStorage pg) (inputValue pg f) (Some (getFormData pg)) = None)"
  by (simp add: validateField_def Let_def getField_getFormData split: option.splits)

lemma validateField_inputValue:
  "inputValue (snd (validateField f pg)) = inputValue pg"
  by (simp add: validateField_def Let_def split: option.splits)

lemma validateField_localStorage:
  "localStorage (snd (validateField f pg)) = localStorage pg"
  by (simp add: validateField_def Let_def split: option.splits)

lemma validateField_getFormData:
  "getFormData (snd (validateField f pg)) = getFormData pg"
  by (simp add: getFormData_def validateField_inputValue)

lemma validateField_other_classes:
  "g \<noteq> f \<Longrightarrow> inputClassList (snd (validateField f pg)) g = inputClassList pg g"
  by (simp add: validateField_def Let_def split: option.splits)

lemma validateField_other_text:
  "g \<noteq> f \<Longrightarrow> errorTextContent (snd (validateField f pg)) g = errorTextContent pg g"
  by (simp add: validateField_def Let_def split: option.splits)

lemma validateField_text:
  "errorTextContent (snd (validateField f pg)) f =
     (case firstFailure (rules f) (localStorage pg) (inputValue pg f) (Some (getFormData pg)) of
        None \<Rightarrow> [] | Some m \<Rightarrow> m)"
  by (simp add: validateField_def Let_def getField_getFormData split: option.splits)

lemma validateField_classes:
  "inputClassList (snd (validateField f pg)) f =
     (case firstFailure (rules f) (localStorage pg) (inputValue pg f) (Some (getFormData pg)) of
        None \<Rightarrow> classAdd ''success'' (classRemove ''error'' (inputClassList pg f))
      | Some m \<Rightarrow> classRemove ''success'' (classAdd ''error'' (inputClassList pg f)))"
  by (simp add: validateField_def Let_def getField_getFormData split: option.splits)

lemma evaluateField_firstFailure:
  "evaluateField f pg =
     (case firstFailure (rules f) (localStorage pg) (inputValue pg f) (Some (getFormData pg)) of
        None \<Rightarrow> Valid | Some m \<Rightarrow> Invalid m)"
  by (simp add: evaluateField_def validateField_def Let_def getField_getFormData
      split: option.splits)

lemma evaluateField_Valid: "(evaluateField f pg = Valid) = fst (validateField f pg)"
  by (simp add: evaluateField_firstFailure validateField_fst split: option.splits)

text \<open>A call of \<open>validateField\<close> does not change what a later call returns or writes.\<close>

lemma validateField_fst_after:
  "fst (validateField f (snd (validateField x pg))) = fst (validateField f pg)"
  by (simp add: validateField_fst validateField_inputValue validateField_localStorage
      validateField_getFormData)

lemma classes_after:
  "g \<noteq> x \<Longrightarrow>
   inputClassList (snd (validateField g (snd (validateField x pg)))) g =
     inputClassList (snd (validateField g pg)) g"
  by (simp add: validateField_classes validateField_inputValue validateField_localStorage
      validateField_getFormData validateField_other_classes split: option.splits)

lemma text_after:
  "errorTextContent (snd (validateField g (snd (validateField x pg)))) g =
     errorTextContent (snd (validateField g pg)) g"
  by (simp add: validateField_text validateField_inputValue validateField_localStorage
      validateField_getFormData)

section \<open>Properties of \<open>every\<close> over the fields\<close>

lemma every_Cons:
  "every cb (x # xs) s =
     (if fst (cb x s) then every cb xs (snd (cb x s)) else (False, snd (cb x s)))"
  by (simp split: prod.splits bool.splits)

lemma every_fst:
  "fst (every validateField fs pg) = list_all (\<lambda>f. fst (validateField f pg)) fs"
proof (induction fs arbitrary: pg)
  case Nil
  show ?case by simp
next
  case (Cons x xs)
  show ?case
    by (simp del: every.simps add: every_Cons Cons.IH validateField_fst_after)
qed

lemma every_shown:
  "distinct fs \<Longrightarrow>
   inputClassList (snd (every validateField fs pg)) g =
     (if g \<in> set fs \<and> list_all (\<lambda>f. fst (validateField f pg)) (takeWhile (\<lambda>f. f \<noteq> g) fs)
      then inputClassList (snd (validateField g pg)) g else inputClassList pg g) \<and>
   errorTextContent (snd (every validateField fs pg)) g =
     (if g \<in> set fs \<and> list_all (\<lambda>f. fst (validateField f pg)) (takeWhile (\<lambda>f. f \<noteq> g) fs)
      then errorTextContent (snd (validateField g pg)) g else errorTextContent pg g)"
proof (induction fs arbitrary: pg)
  case Nil
  show ?case by simp
next
  case (Cons x xs)
  then have dx: "distinct xs" and nx: "x \<notin> set xs" by simp_all
  note IH = Cons.IH [OF dx, of "snd (validateField x pg)"]
  show ?case
  proof (cases "g = x")
    case True
    with nx IH show ?thesis
      by (simp del: every.simps add: every_Cons)
  next
    case False
    with nx IH show ?thesis
      by (simp del: every.simps add: every_Cons validateField_fst_after
          validateField_other_classes validateField_other_text classes_after text_after)
  qed
qed

text \<open>The facts that evaluate the model on a concrete page.\<close>

lemmas run_simps =
  evaluateField_def validateField_def validateAll_def fields_def getFormData_def
  loadedPage_def Let_def containsClass_def upperClass_def lowerClass_def digitClass_def
  specialClass_def inRange_def codeUnit_def trim_def isWhiteSpace_def nameRegex_def
  emailRegex_def nameClass_def emailClass_def isEmailRegistered_def getRegisteredEmails_def
  toLowerCase_def lowerChar_def char_of_def bit_Suc_0_iff classAdd_def classRemove_def

section \<open>Properties of the string functions\<close>

lemma matchesWhole_Many1: "matchesWhole [Many1 p] s = (s \<noteq> [] \<and> list_all p s)"
  by (induction s) auto

lemma codeUnit_char_of: "n < 256 \<Longrightarrow> codeUnit (char_of n) = n"
  by (simp add: codeUnit_def)

lemma codeUnit_less: "codeUnit c < 256"
  by (simp add: codeUnit_def)

lemma lowerChar_idem: "lowerChar (lowerChar c) = lowerChar c"
  using codeUnit_less [of c] by (simp add: lowerChar_def Let_def codeUnit_char_of)

lemma toLowerCase_idem: "toLowerCase (toLowerCase s) = toLowerCase s"
  by (simp add: toLowerCase_def lowerChar_idem)

text \<open>
  On a string whose white space is the space character only, the expression of the source
  and the specification's wording of it agree.
\<close>

lemma nameRegex_specNameRegex:
  "list_all (\<lambda>c. isWhiteSpace c \<longrightarrow> c = CHR '' '') s \<Longrightarrow>
   matchesWhole nameRegex s = matchesWhole specNameRegex s"
proof -
  assume a: "list_all (\<lambda>c. isWhiteSpace c \<longrightarrow> c = CHR '' '') s"
  have sp: "isWhiteSpace CHR '' ''" by (simp add: isWhiteSpace_def codeUnit_def)
  from a have "list_all nameClass s = list_all specNameClass s"
    by (induction s) (auto simp: nameClass_def specNameClass_def sp)
  then show ?thesis
    by (simp add: nameRegex_def specNameRegex_def matchesWhole_Many1)
qed

text \<open>\<open>saveEmail\<close> writes the storage only.\<close>

lemma saveEmail_registry:
  "getRegisteredEmails (localStorage (saveEmail e pg)) =
     (if toLowerCase e \<in> set (getRegisteredEmails (localStorage pg))
      then getRegisteredEmails (localStorage pg)
      else getRegisteredEmails (localStorage pg) @ [toLowerCase e])"
  by (simp add: saveEmail_def Let_def getRegisteredEmails_def)

section \<open>The claims\<close>

text \<open>
  C1, as the code has it: \<open>validateAll\<close> runs \<open>validateField\<close> on the fields in the
  order name, email, password, confirmPassword and stops at the first field that is
  invalid. A field is evaluated, and its class list and error text show its outcome,
  exactly when every field before it is valid; a field after the first invalid one is
  not evaluated, and its class list and error text are left as they were.
\<close>

theorem validateAll_evaluates_up_to_first_invalid:
  "inputClassList (snd (validateAll pg)) g =
     (if list_all (\<lambda>f. evaluateField f pg = Valid) (fieldsBefore g)
      then inputClassList (snd (validateField g pg)) g else inputClassList pg g) \<and>
   errorTextContent (snd (validateAll pg)) g =
     (if list_all (\<lambda>f. evaluateField f pg = Valid) (fieldsBefore g)
      then errorTextContent (snd (validateField g pg)) g else errorTextContent pg g)"
proof -
  have "distinct fields" by (simp add: fields_def)
  moreover have "g \<in> set fields" by (cases g) (simp_all add: fields_def)
  ultimately show ?thesis
    using every_shown [of fields pg g]
    by (simp add: validateAll_def fieldsBefore_def evaluateField_Valid)
qed

theorem validateAll_evaluates_up_to_first_invalid_witness:
  "errorTextContent
     (snd (validateAll
        (loadedPage \<lparr>name = ''Al'', email = [], password = [], confirmPassword = []\<rparr> None)))
     Email = ''Email is required'' \<and>
   errorTextContent
     (snd (validateAll
        (loadedPage \<lparr>name = ''Al'', email = [], password = [], confirmPassword = []\<rparr> None)))
     Password = []"
  using validateAll_evaluates_up_to_first_invalid
    [of "loadedPage \<lparr>name = ''Al'', email = [], password = [], confirmPassword = []\<rparr> None" Email]
    validateAll_evaluates_up_to_first_invalid
    [of "loadedPage \<lparr>name = ''Al'', email = [], password = [], confirmPassword = []\<rparr> None" Password]
  by (simp add: fieldsBefore_def run_simps)

text \<open>
  C1 as it is written fails: with an empty name and an empty email, \<open>validateAll\<close>
  returns \<open>false\<close> after the name field, and the email field, whose own outcome is
  Invalid, has not been evaluated: it has neither class nor error text.
\<close>

theorem validateAll_evaluates_every_field_counterexample:
  "evaluateField Name
     (loadedPage \<lparr>name = [], email = [], password = [], confirmPassword = []\<rparr> None)
     = Invalid ''Name is required'' \<and>
   evaluateField Email
     (loadedPage \<lparr>name = [], email = [], password = [], confirmPassword = []\<rparr> None)
     = Invalid ''Email is required'' \<and>
   errorTextContent
     (snd (validateField Email
        (loadedPage \<lparr>name = [], email = [], password = [], confirmPassword = []\<rparr> None)))
     Email = ''Email is required'' \<and>
   errorTextContent
     (snd (validateAll
        (loadedPage \<lparr>name = [], email = [], password = [], confirmPassword = []\<rparr> None)))
     Email = [] \<and>
   inputClassList
     (snd (validateAll
        (loadedPage \<lparr>name = [], email = [], password = [], confirmPassword = []\<rparr> None)))
     Email = []"
  by (simp add: run_simps)

text \<open>
  C2: for every field and every page, \<open>validateField\<close> reports the message of the first
  rule, in the order of the field's rule list, whose predicate is false for the field's
  value and the form data, and Valid when there is none. The rules after the first
  failing one have no part in the result: whatever follows a failing rule that all
  earlier rules pass, the loop returns that rule's message. The value \<open>1\<close> of the name
  field fails the second and the third rule, and the message is the second rule's.
\<close>

theorem validateField_first_failing_rule:
  "evaluateField f pg =
     (case find (\<lambda>r. \<not> validate r (localStorage pg) (inputValue pg f) (Some (getFormData pg)))
             (rules f) of
        None \<Rightarrow> Valid
      | Some r \<Rightarrow> Invalid (message r)) \<and>
   (list_all (\<lambda>r. validate r st v d) pre \<and> \<not> validate r st v d \<longrightarrow>
      firstFailure (pre @ r # post) st v d = Some (message r)) \<and>
   \<not> validate (rules Name ! 1) st ''1'' d \<and> \<not> validate (rules Name ! 2) st ''1'' d \<and>
   evaluateField Name (loadedPage \<lparr>name = ''1'', email = e, password = p, confirmPassword = c\<rparr> st)
     = Invalid (message (rules Name ! 1))"
proof (intro conjI)
  show "evaluateField f pg =
     (case find (\<lambda>r. \<not> validate r (localStorage pg) (inputValue pg f) (Some (getFormData pg)))
             (rules f) of
        None \<Rightarrow> Valid
      | Some r \<Rightarrow> Invalid (message r))"
    by (simp add: evaluateField_firstFailure firstFailure_find split: option.splits)
  show "list_all (\<lambda>r. validate r st v d) pre \<and> \<not> validate r st v d \<longrightarrow>
     firstFailure (pre @ r # post) st v d = Some (message r)"
    by (simp add: firstFailure_append)
  show "\<not> validate (rules Name ! 1) st ''1'' d"
    by (simp add: run_simps)
  show "\<not> validate (rules Name ! 2) st ''1'' d"
    by (simp add: run_simps)
  show "evaluateField Name
      (loadedPage \<lparr>name = ''1'', email = e, password = p, confirmPassword = c\<rparr> st)
     = Invalid (message (rules Name ! 1))"
    by (simp add: run_simps)
qed

text \<open>
  The password \<open>password\<close> passes the first two rules and fails the third; the message is
  the third rule's, whatever rules follow it.
\<close>

theorem validateField_first_failing_rule_witness:
  "list_all (\<lambda>r. validate r None ''password'' None) (take 2 (rules Password)) \<and>
   \<not> validate (rules Password ! 2) None ''password'' None \<and>
   firstFailure (take 2 (rules Password) @ rules Password ! 2 # []) None ''password'' None
     = Some ''Password must contain at least one uppercase letter'' \<and>
   firstFailure (take 2 (rules Password) @ rules Password ! 2 # rules Name) None ''password'' None
     = Some ''Password must contain at least one uppercase letter''"
proof -
  have h: "list_all (\<lambda>r. validate r None ''password'' None) (take 2 (rules Password)) \<and>
      \<not> validate (rules Password ! 2) None ''password'' None"
    by (simp add: numeral_2_eq_2 run_simps)
  have m: "message (rules Password ! 2) = ''Password must contain at least one uppercase letter''"
    by simp
  from h m
    validateField_first_failing_rule
      [of Name "loadedPage \<lparr>name = [], email = [], password = [], confirmPassword = []\<rparr> None"
          None "''password''" None "take 2 (rules Password)" "rules Password ! 2" "[]"]
    validateField_first_failing_rule
      [of Name "loadedPage \<lparr>name = [], email = [], password = [], confirmPassword = []\<rparr> None"
          None "''password''" None "take 2 (rules Password)" "rules Password ! 2" "rules Name"]
  show ?thesis by simp
qed

text \<open>
  C3: \<open>validateAll\<close> returns \<open>true\<close> if and only if all four fields are Valid; so it
  returns \<open>false\<close> as soon as one of them is Invalid.
\<close>

theorem validateAll_true_iff_all_valid:
  "fst (validateAll pg) =
     (evaluateField Name pg = Valid \<and> evaluateField Email pg = Valid \<and>
      evaluateField Password pg = Valid \<and> evaluateField ConfirmPassword pg = Valid)"
  by (simp add: validateAll_def fields_def every_fst evaluateField_Valid del: every.simps)

text \<open>
  C4: the second rule of confirmPassword is false when no form data is passed, and with
  form data it is the equality of the value with \<open>password\<close>, character for character.
  So for a non-empty confirmPassword the field is Valid if and only if the form data is
  there and the two strings are equal, and Invalid with \<open>Passwords do not match\<close>
  otherwise; \<open>abc12345!\<close> against the password \<open>Abc12345!\<close> is Invalid, \<open>Abc12345!\<close> is Valid.
\<close>

theorem confirmPassword_exact_match:
  "validate (rules ConfirmPassword ! 1) st v None = False \<and>
   validate (rules ConfirmPassword ! 1) st v (Some data) = (v = password data) \<and>
   (v \<noteq> [] \<longrightarrow>
      firstFailure (rules ConfirmPassword) st v dopt =
        (case dopt of
           None \<Rightarrow> Some ''Passwords do not match''
         | Some data \<Rightarrow> if v = password data then None else Some ''Passwords do not match'')) \<and>
   (inputValue pg ConfirmPassword \<noteq> [] \<longrightarrow>
      evaluateField ConfirmPassword pg =
        (if inputValue pg ConfirmPassword = inputValue pg Password then Valid
         else Invalid ''Passwords do not match'')) \<and>
   evaluateField ConfirmPassword
     (loadedPage \<lparr>name = n, email = e, password = ''Abc12345!'', confirmPassword = ''abc12345!''\<rparr> st)
     = Invalid ''Passwords do not match'' \<and>
   evaluateField ConfirmPassword
     (loadedPage \<lparr>name = n, email = e, password = ''Abc12345!'', confirmPassword = ''Abc12345!''\<rparr> st)
     = Valid"
proof (intro conjI)
  show "validate (rules ConfirmPassword ! 1) st v None = False" by simp
  show "validate (rules ConfirmPassword ! 1) st v (Some data) = (v = password data)" by simp
  show "v \<noteq> [] \<longrightarrow>
      firstFailure (rules ConfirmPassword) st v dopt =
        (case dopt of
           None \<Rightarrow> Some ''Passwords do not match''
         | Some data \<Rightarrow> if v = password data then None else Some ''Passwords do not match'')"
    by (simp split: option.splits)
  show "inputValue pg ConfirmPassword \<noteq> [] \<longrightarrow>
      evaluateField ConfirmPassword pg =
        (if inputValue pg ConfirmPassword = inputValue pg Password then Valid
         else Invalid ''Passwords do not match'')"
    by (simp add: evaluateField_firstFailure getFormData_def)
  show "evaluateField ConfirmPassword
     (loadedPage \<lparr>name = n, email = e, password = ''Abc12345!'', confirmPassword = ''abc12345!''\<rparr> st)
     = Invalid ''Passwords do not match''"
    by (simp add: run_simps)
  show "evaluateField ConfirmPassword
     (loadedPage \<lparr>name = n, email = e, password = ''Abc12345!'', confirmPassword = ''Abc12345!''\<rparr> st)
     = Valid"
    by (simp add: run_simps)
qed

text \<open>
  A confirmation with a trailing space does not match, and without form data even the
  password itself does not.
\<close>

theorem confirmPassword_exact_match_witness:
  "evaluateField ConfirmPassword
     (loadedPage \<lparr>name = [], email = [], password = ''Abc12345!'', confirmPassword = ''Abc12345! ''\<rparr> None)
     = Invalid ''Passwords do not match'' \<and>
   firstFailure (rules ConfirmPassword) None ''Abc12345!'' None = Some ''Passwords do not match'' \<and>
   firstFailure (rules ConfirmPassword) None ''Abc12345!''
     (Some \<lparr>name = [], email = [], password = ''Abc12345!'', confirmPassword = ''Abc12345!''\<rparr>) = None"
proof -
  have h1: "inputValue
      (loadedPage \<lparr>name = [], email = [], password = ''Abc12345!'', confirmPassword = ''Abc12345! ''\<rparr> None)
      ConfirmPassword \<noteq> []"
    by (simp add: loadedPage_def)
  have h2: "''Abc12345!'' \<noteq> []" by simp
  from h1 h2
    confirmPassword_exact_match
      [where st = None and v = "''Abc12345!''" and dopt = None and n = "[]" and e = "[]"
         and pg = "loadedPage \<lparr>name = [], email = [], password = ''Abc12345!'', confirmPassword = ''Abc12345! ''\<rparr> None"]
    confirmPassword_exact_match
      [where st = None and v = "''Abc12345!''" and n = "[]" and e = "[]"
         and dopt = "Some \<lparr>name = [], email = [], password = ''Abc12345!'', confirmPassword = ''Abc12345!''\<rparr>"
         and pg = "loadedPage \<lparr>name = [], email = [], password = ''Abc12345!'', confirmPassword = ''Abc12345! ''\<rparr> None"]
  show ?thesis by (simp add: loadedPage_def)
qed

text \<open>
  C5, as the code has it: when the trimmed name has at least two characters, the name is
  Valid if and only if the trimmed value matches \<open>^[a-zA-Z\s]+$\<close>, that is, consists of
  the letters A-Z, a-z and white-space characters (the space, and also the tab, the
  no-break space and the other characters of \<open>\s\<close>); otherwise it is Invalid with
  \<open>Name can only contain letters and spaces\<close>. \<open>Al\<close> is Valid, \<open>A\<close> fails the length
  rule, \<open>Anna3\<close> fails the character rule.
\<close>

theorem name_letters_and_whitespace:
  "(2 \<le> length (trim (inputValue pg Name)) \<longrightarrow>
      evaluateField Name pg =
        (if matchesWhole nameRegex (trim (inputValue pg Name)) then Valid
         else Invalid ''Name can only contain letters and spaces'')) \<and>
   matchesWhole nameRegex s = (s \<noteq> [] \<and> list_all nameClass s) \<and>
   evaluateField Name (loadedPage \<lparr>name = ''Al'', email = e, password = p, confirmPassword = c\<rparr> st)
     = Valid \<and>
   evaluateField Name (loadedPage \<lparr>name = ''A'', email = e, password = p, confirmPassword = c\<rparr> st)
     = Invalid ''Name must be at least 2 characters long'' \<and>
   evaluateField Name (loadedPage \<lparr>name = ''Anna3'', email = e, password = p, confirmPassword = c\<rparr> st)
     = Invalid ''Name can only contain letters and spaces''"
proof (intro conjI)
  show "2 \<le> length (trim (inputValue pg Name)) \<longrightarrow>
      evaluateField Name pg =
        (if matchesWhole nameRegex (trim (inputValue pg Name)) then Valid
         else Invalid ''Name can only contain letters and spaces'')"
    by (auto simp: evaluateField_firstFailure)
  show "matchesWhole nameRegex s = (s \<noteq> [] \<and> list_all nameClass s)"
    by (simp add: nameRegex_def matchesWhole_Many1)
  show "evaluateField Name
      (loadedPage \<lparr>name = ''Al'', email = e, password = p, confirmPassword = c\<rparr> st) = Valid"
    by (simp add: run_simps)
  show "evaluateField Name
      (loadedPage \<lparr>name = ''A'', email = e, password = p, confirmPassword = c\<rparr> st)
     = Invalid ''Name must be at least 2 characters long''"
    by (simp add: run_simps)
  show "evaluateField Name
      (loadedPage \<lparr>name = ''Anna3'', email = e, password = p, confirmPassword = c\<rparr> st)
     = Invalid ''Name can only contain letters and spaces''"
    by (simp add: run_simps)
qed

text \<open>\<open>Mary Ann\<close> between spaces is trimmed to eight characters and is Valid.\<close>

theorem name_letters_and_whitespace_witness:
  "2 \<le> length (trim '' Mary Ann '') \<and> matchesWhole nameRegex (trim '' Mary Ann '') \<and>
   evaluateField Name
     (loadedPage \<lparr>name = '' Mary Ann '', email = [], password = [], confirmPassword = []\<rparr> None)
     = Valid"
proof -
  have h: "2 \<le> length (trim (inputValue
      (loadedPage \<lparr>name = '' Mary Ann '', email = [], password = [], confirmPassword = []\<rparr> None)
      Name))"
    by (simp add: run_simps)
  have m: "matchesWhole nameRegex (trim '' Mary Ann '')"
    by (simp add: run_simps)
  from h m
    name_letters_and_whitespace
      [where pg = "loadedPage \<lparr>name = '' Mary Ann '', email = [], password = [], confirmPassword = []\<rparr> None"]
  show ?thesis by (simp add: loadedPage_def)
qed

text \<open>
  C5 as it is written fails: the name made of \<open>A\<close>, a tab and \<open>b\<close> has three characters
  after trimming and is Valid, and it does not consist of letters and spaces only.
\<close>

theorem name_letters_and_spaces_counterexample:
  "2 \<le> length (trim [CHR ''A'', CHR 0x09, CHR ''b'']) \<and>
   evaluateField Name
     (loadedPage
        \<lparr>name = [CHR ''A'', CHR 0x09, CHR ''b''], email = [], password = [], confirmPassword = []\<rparr>
        None)
     = Valid \<and>
   \<not> matchesWhole specNameRegex (trim [CHR ''A'', CHR 0x09, CHR ''b''])"
  by (simp add: specNameRegex_def specNameClass_def run_simps)

text \<open>
  C6, as the code has it: the password field has six rules, the required rule and the
  length rule followed by four character-class rules, for an uppercase letter, a
  lowercase letter, a digit and a special character, and they fire in this order: the
  outcome of every password is the message of the first of them that it fails. So
  \<open>password\<close> is Invalid with the uppercase message, \<open>Password\<close> with the number
  message, \<open>Password1\<close> with the special-character message, and \<open>Password1!\<close> is Valid;
  the empty password gets the required message, \<open>Pass1!\<close> the length message and
  \<open>PASSWORD1!\<close> the lowercase message.
\<close>

theorem password_rules_in_order:
  "evaluateField Password pg =
     (let v = inputValue pg Password
      in if length v = 0 then Invalid ''Password is required''
         else if length v < 8 then Invalid ''Password must be at least 8 characters long''
         else if \<not> containsClass upperClass v
           then Invalid ''Password must contain at least one uppercase letter''
         else if \<not> containsClass lowerClass v
           then Invalid ''Password must contain at least one lowercase letter''
         else if \<not> containsClass digitClass v
           then Invalid ''Password must contain at least one number''
         else if \<not> containsClass specialClass v
           then Invalid ''Password must contain at least one special character''
         else Valid) \<and>
   map message (rules Password) =
     [''Password is required'', ''Password must be at least 8 characters long'',
      ''Password must contain at least one uppercase letter'',
      ''Password must contain at least one lowercase letter'',
      ''Password must contain at least one number'',
      ''Password must contain at least one special character''] \<and>
   evaluateField Password
     (loadedPage \<lparr>name = n, email = e, password = ''password'', confirmPassword = c\<rparr> st)
     = Invalid ''Password must contain at least one uppercase letter'' \<and>
   evaluateField Password
     (loadedPage \<lparr>name = n, email = e, password = ''Password'', confirmPassword = c\<rparr> st)
     = Invalid ''Password must contain at least one number'' \<and>
   evaluateField Password
     (loadedPage \<lparr>name = n, email = e, password = ''Password1'', confirmPassword = c\<rparr> st)
     = Invalid ''Password must contain at least one special character'' \<and>
   evaluateField Password
     (loadedPage \<lparr>name = n, email = e, password = ''Password1!'', confirmPassword = c\<rparr> st)
     = Valid \<and>
   evaluateField Password
     (loadedPage \<lparr>name = n, email = e, password = [], confirmPassword = c\<rparr> st)
     = Invalid ''Password is required'' \<and>
   evaluateField Password
     (loadedPage \<lparr>name = n, email = e, password = ''Pass1!'', confirmPassword = c\<rparr> st)
     = Invalid ''Password must be at least 8 characters long'' \<and>
   evaluateField Password
     (loadedPage \<lparr>name = n, email = e, password = ''PASSWORD1!'', confirmPassword = c\<rparr> st)
     = Invalid ''Password must contain at least one lowercase letter''"
proof (intro conjI)
  show "evaluateField Password pg =
     (let v = inputValue pg Password
      in if length v = 0 then Invalid ''Password is required''
         else if length v < 8 then Invalid ''Password must be at least 8 characters long''
         else if \<not> containsClass upperClass v
           then Invalid ''Password must contain at least one uppercase letter''
         else if \<not> containsClass lowerClass v
           then Invalid ''Password must contain at least one lowercase letter''
         else if \<not> containsClass digitClass v
           then Invalid ''Password must contain at least one number''
         else if \<not> containsClass specialClass v
           then Invalid ''Password must contain at least one special character''
         else Valid)"
    by (simp add: evaluateField_firstFailure Let_def)
qed (simp_all add: run_simps)

text \<open>
  C6 as it is written fails in its count: the rules that follow the required rule and the
  length rule are the four tests for a character class, not five.
\<close>

theorem password_five_class_rules_counterexample:
  "map validate (take 2 (rules Password)) =
     [\<lambda>st v d. length v > 0, \<lambda>st v d. length v \<ge> 8] \<and>
   map validate (drop 2 (rules Password)) =
     [\<lambda>st v d. containsClass upperClass v, \<lambda>st v d. containsClass lowerClass v,
      \<lambda>st v d. containsClass digitClass v, \<lambda>st v d. containsClass specialClass v] \<and>
   length (drop 2 (rules Password)) = 4 \<and>
   length (drop 2 (rules Password)) \<noteq> 5"
  by (simp add: numeral_2_eq_2)

text \<open>
  C7: the empty email is Invalid with the required message, although it fails the format
  rule as well; \<open>a@b\<close> is Invalid with the format message; \<open>a@b.com\<close> passes the
  required rule and the format rule, so that its outcome is left to the registry.
\<close>

theorem email_required_before_format:
  "evaluateField Email
     (loadedPage \<lparr>name = n, email = [], password = p, confirmPassword = c\<rparr> st)
     = Invalid ''Email is required'' \<and>
   \<not> validate (rules Email ! 1) st [] d \<and>
   evaluateField Email
     (loadedPage \<lparr>name = n, email = ''a@b'', password = p, confirmPassword = c\<rparr> st)
     = Invalid ''Please enter a valid email address'' \<and>
   validate (rules Email ! 0) st ''a@b.com'' d \<and>
   validate (rules Email ! 1) st ''a@b.com'' d \<and>
   evaluateField Email
     (loadedPage \<lparr>name = n, email = ''a@b.com'', password = p, confirmPassword = c\<rparr> st)
     = (if ''a@b.com'' \<in> set (getRegisteredEmails st)
        then Invalid ''This email is already registered'' else Valid)"
  by (simp add: run_simps)

text \<open>
  C8: an email that passes the required rule and the format rule is Invalid with
  \<open>This email is already registered\<close> exactly when the lowercase form of its trimmed
  value is an entry of the registry, and Valid otherwise. On a well-formed registry (one
  that \<open>saveEmail\<close> has written: lowercase entries) this is a match up to case: the
  value is registered if and only if some entry has the same lowercase form. The
  entries themselves are compared as they are stored, so an entry that is not lowercase
  is never matched. When the registry holds \<open>x@y.com\<close>, the email \<open>X@Y.com\<close> is
  Invalid with \<open>This email is already registered\<close>; when it does not, it is Valid.
\<close>

theorem email_registered_case_insensitive:
  "(0 < length (trim (inputValue pg Email)) \<and>
    matchesWhole emailRegex (trim (inputValue pg Email)) \<longrightarrow>
      evaluateField Email pg =
        (if toLowerCase (trim (inputValue pg Email)) \<in> set (getRegisteredEmails (localStorage pg))
         then Invalid ''This email is already registered'' else Valid)) \<and>
   isEmailRegistered st v = (toLowerCase v \<in> set (getRegisteredEmails st)) \<and>
   (registryOk st \<longrightarrow>
      isEmailRegistered st v =
        list_ex (\<lambda>x. toLowerCase x = toLowerCase v) (getRegisteredEmails st)) \<and>
   (toLowerCase v = toLowerCase w \<longrightarrow> isEmailRegistered st v = isEmailRegistered st w) \<and>
   \<not> isEmailRegistered (Some [''X@Y.com'']) ''x@y.com'' \<and>
   \<not> isEmailRegistered (Some [''X@Y.com'']) ''X@Y.com'' \<and>
   (inputValue pg Email = ''X@Y.com'' \<longrightarrow>
      evaluateField Email pg =
        (if ''x@y.com'' \<in> set (getRegisteredEmails (localStorage pg))
         then Invalid ''This email is already registered'' else Valid))"
proof (intro conjI impI)
  assume "0 < length (trim (inputValue pg Email)) \<and>
    matchesWhole emailRegex (trim (inputValue pg Email))"
  then show "evaluateField Email pg =
        (if toLowerCase (trim (inputValue pg Email)) \<in> set (getRegisteredEmails (localStorage pg))
         then Invalid ''This email is already registered'' else Valid)"
    by (simp add: evaluateField_firstFailure isEmailRegistered_def)
next
  show "isEmailRegistered st v = (toLowerCase v \<in> set (getRegisteredEmails st))"
    by (simp add: isEmailRegistered_def)
next
  assume ok: "registryOk st"
  have "toLowerCase v \<in> set (getRegisteredEmails st) \<longleftrightarrow>
      (\<exists>x \<in> set (getRegisteredEmails st). toLowerCase x = toLowerCase v)"
  proof
    assume m: "toLowerCase v \<in> set (getRegisteredEmails st)"
    have "toLowerCase (toLowerCase v) = toLowerCase v" by (rule toLowerCase_idem)
    with m show "\<exists>x \<in> set (getRegisteredEmails st). toLowerCase x = toLowerCase v" by blast
  next
    assume "\<exists>x \<in> set (getRegisteredEmails st). toLowerCase x = toLowerCase v"
    then obtain x where x: "x \<in> set (getRegisteredEmails st)" and e: "toLowerCase x = toLowerCase v"
      by blast
    from ok x have "toLowerCase x = x"
      by (simp add: registryOk_def list_all_iff isLowercase_def)
    with x e show "toLowerCase v \<in> set (getRegisteredEmails st)" by simp
  qed
  then show "isEmailRegistered st v =
      list_ex (\<lambda>x. toLowerCase x = toLowerCase v) (getRegisteredEmails st)"
    by (simp add: isEmailRegistered_def list_ex_iff)
next
  assume "toLowerCase v = toLowerCase w"
  then show "isEmailRegistered st v = isEmailRegistered st w"
    by (simp add: isEmailRegistered_def)
next
  show "\<not> isEmailRegistered (Some [''X@Y.com'']) ''x@y.com''"
    by (simp add: isEmailRegistered_def getRegisteredEmails_def toLowerCase_def lowerChar_def
        codeUnit_def char_of_def bit_Suc_0_iff)
next
  show "\<not> isEmailRegistered (Some [''X@Y.com'']) ''X@Y.com''"
    by (simp add: isEmailRegistered_def getRegisteredEmails_def toLowerCase_def lowerChar_def
        codeUnit_def char_of_def bit_Suc_0_iff)
next
  assume a: "inputValue pg Email = ''X@Y.com''"
  have t: "trim ''X@Y.com'' = ''X@Y.com''"
    by (simp add: trim_def isWhiteSpace_def codeUnit_def)
  have l: "toLowerCase ''X@Y.com'' = ''x@y.com''"
    by (simp add: toLowerCase_def lowerChar_def codeUnit_def char_of_def bit_Suc_0_iff)
  have m: "matchesWhole emailRegex ''X@Y.com''"
    by (simp add: emailRegex_def emailClass_def isWhiteSpace_def codeUnit_def)
  from a show "evaluateField Email pg =
        (if ''x@y.com'' \<in> set (getRegisteredEmails (localStorage pg))
         then Invalid ''This email is already registered'' else Valid)"
    by (simp add: evaluateField_firstFailure t l m isEmailRegistered_def)
qed

text \<open>
  With the registry \<open>a@b.com\<close>, \<open>x@y.com\<close>: \<open>X@Y.com\<close> is registered and Invalid,
  \<open>X@Z.com\<close> is not registered and Valid.
\<close>

theorem email_registered_case_insensitive_witness:
  "registryOk (Some [''a@b.com'', ''x@y.com'']) \<and>
   toLowerCase ''X@Y.com'' = toLowerCase ''x@Y.COM'' \<and>
   isEmailRegistered (Some [''a@b.com'', ''x@y.com'']) ''X@Y.com'' \<and>
   isEmailRegistered (Some [''a@b.com'', ''x@y.com'']) ''x@Y.COM'' \<and>
   list_ex (\<lambda>x. toLowerCase x = toLowerCase ''X@Y.com'') [''a@b.com'', ''x@y.com''] \<and>
   evaluateField Email
     (loadedPage \<lparr>name = ''Al'', email = ''X@Y.com'', password = [], confirmPassword = []\<rparr>
        (Some [''a@b.com'', ''x@y.com'']))
     = Invalid ''This email is already registered'' \<and>
   0 < length (trim '' X@Z.com '') \<and> matchesWhole emailRegex (trim '' X@Z.com '') \<and>
   evaluateField Email
     (loadedPage \<lparr>name = ''Al'', email = '' X@Z.com '', password = [], confirmPassword = []\<rparr>
        (Some [''a@b.com'', ''x@y.com'']))
     = Valid"
proof -
  let ?st = "Some [''a@b.com'', ''x@y.com'']"
  let ?pg = "loadedPage \<lparr>name = ''Al'', email = ''X@Y.com'', password = [], confirmPassword = []\<rparr> ?st"
  let ?pz = "loadedPage \<lparr>name = ''Al'', email = '' X@Z.com '', password = [], confirmPassword = []\<rparr> ?st"
  have ok: "registryOk ?st"
    by (simp add: registryOk_def isLowercase_def getRegisteredEmails_def
        toLowerCase_def lowerChar_def codeUnit_def)
  have h1: "toLowerCase ''X@Y.com'' = toLowerCase ''x@Y.COM''"
    by (simp add: toLowerCase_def lowerChar_def codeUnit_def char_of_def bit_Suc_0_iff)
  have h2: "inputValue ?pg Email = ''X@Y.com''"
    by (simp add: loadedPage_def)
  have h3: "0 < length (trim (inputValue ?pz Email)) \<and>
      matchesWhole emailRegex (trim (inputValue ?pz Email))"
    by (simp add: loadedPage_def trim_def isWhiteSpace_def codeUnit_def emailRegex_def
        emailClass_def)
  have l: "toLowerCase ''X@Y.com'' = ''x@y.com''"
    by (simp add: toLowerCase_def lowerChar_def codeUnit_def char_of_def bit_Suc_0_iff)
  have z: "toLowerCase (trim '' X@Z.com '') = ''x@z.com''"
    by (simp add: trim_def isWhiteSpace_def toLowerCase_def lowerChar_def codeUnit_def
        char_of_def bit_Suc_0_iff)
  note T = email_registered_case_insensitive
  note T1 = T [where st = ?st and v = "''X@Y.com''" and w = "''x@Y.COM''" and pg = ?pg]
  from T1 have "isEmailRegistered ?st ''X@Y.com'' =
      (toLowerCase ''X@Y.com'' \<in> set (getRegisteredEmails ?st))"
    by blast
  then have r1: "isEmailRegistered ?st ''X@Y.com''"
    by (simp add: l getRegisteredEmails_def)
  from h1 T1 have "isEmailRegistered ?st ''X@Y.com'' = isEmailRegistered ?st ''x@Y.COM''"
    by blast
  with r1 have r2: "isEmailRegistered ?st ''x@Y.COM''" by simp
  from ok T1 have "isEmailRegistered ?st ''X@Y.com'' =
      list_ex (\<lambda>x. toLowerCase x = toLowerCase ''X@Y.com'') (getRegisteredEmails ?st)"
    by blast
  with r1 have r3: "list_ex (\<lambda>x. toLowerCase x = toLowerCase ''X@Y.com'') (getRegisteredEmails ?st)"
    by simp
  from h2 T [where st = ?st and v = "''X@Y.com''" and w = "''x@Y.COM''" and pg = ?pg]
  have e1: "evaluateField Email ?pg = Invalid ''This email is already registered''"
    by (simp add: loadedPage_def getRegisteredEmails_def)
  from h3 T [where st = ?st and v = "''X@Y.com''" and w = "''x@Y.COM''" and pg = ?pz]
  have e2: "evaluateField Email ?pz = Valid"
    by (simp add: loadedPage_def getRegisteredEmails_def z)
  from h3 have h3': "0 < length (trim '' X@Z.com '') \<and> matchesWhole emailRegex (trim '' X@Z.com '')"
    by (simp add: loadedPage_def)
  from r3 have r3': "list_ex (\<lambda>x. toLowerCase x = toLowerCase ''X@Y.com'') [''a@b.com'', ''x@y.com'']"
    by (simp add: getRegisteredEmails_def)
  from ok h1 r1 r2 r3' e1 h3' e2 show ?thesis by blast
qed

text \<open>
  C9: \<open>saveEmail\<close> keeps the registry well formed. From a registry whose entries are
  lowercase and pairwise different, the registry after \<open>saveEmail e\<close> has lowercase,
  pairwise different entries again, and the lowercase form of \<open>e\<close> is one of them.
\<close>

theorem saveEmail_keeps_registry:
  "registryOk (localStorage pg) \<longrightarrow>
     registryOk (localStorage (saveEmail e pg)) \<and>
     toLowerCase e \<in> set (getRegisteredEmails (localStorage (saveEmail e pg)))"
  by (simp add: registryOk_def saveEmail_registry isLowercase_def toLowerCase_idem)

text \<open>
  Saving \<open>New@Mail.org\<close> into a registry of one entry adds \<open>new@mail.org\<close>; saving
  it once more changes nothing.
\<close>

theorem saveEmail_keeps_registry_witness:
  "registryOk (Some [''x@y.com'']) \<and>
   localStorage (saveEmail ''New@Mail.org''
     (loadedPage \<lparr>name = [], email = [], password = [], confirmPassword = []\<rparr> (Some [''x@y.com''])))
     = Some [''x@y.com'', ''new@mail.org''] \<and>
   registryOk (localStorage (saveEmail ''New@Mail.org''
     (loadedPage \<lparr>name = [], email = [], password = [], confirmPassword = []\<rparr> (Some [''x@y.com''])))) \<and>
   registryOk (localStorage (saveEmail ''NEW@mail.org'' (saveEmail ''New@Mail.org''
     (loadedPage \<lparr>name = [], email = [], password = [], confirmPassword = []\<rparr> (Some [''x@y.com'']))))) \<and>
   localStorage (saveEmail ''NEW@mail.org'' (saveEmail ''New@Mail.org''
     (loadedPage \<lparr>name = [], email = [], password = [], confirmPassword = []\<rparr> (Some [''x@y.com'']))))
     = Some [''x@y.com'', ''new@mail.org'']"
proof -
  let ?pg = "loadedPage \<lparr>name = [], email = [], password = [], confirmPassword = []\<rparr> (Some [''x@y.com''])"
  have h: "registryOk (localStorage ?pg)"
    by (simp add: registryOk_def isLowercase_def loadedPage_def getRegisteredEmails_def
        toLowerCase_def lowerChar_def codeUnit_def)
  have s1: "localStorage (saveEmail ''New@Mail.org'' ?pg) = Some [''x@y.com'', ''new@mail.org'']"
    by (simp add: saveEmail_def loadedPage_def getRegisteredEmails_def Let_def
        toLowerCase_def lowerChar_def codeUnit_def char_of_def bit_Suc_0_iff)
  have s2: "localStorage (saveEmail ''NEW@mail.org'' (saveEmail ''New@Mail.org'' ?pg))
      = Some [''x@y.com'', ''new@mail.org'']"
    by (simp add: saveEmail_def loadedPage_def getRegisteredEmails_def Let_def
        toLowerCase_def lowerChar_def codeUnit_def char_of_def bit_Suc_0_iff)
  from h have h': "registryOk (Some [''x@y.com''])"
    by (simp add: loadedPage_def)
  from h saveEmail_keeps_registry [of ?pg "''New@Mail.org''"]
  have k1: "registryOk (localStorage (saveEmail ''New@Mail.org'' ?pg))" by simp
  from k1 saveEmail_keeps_registry [of "saveEmail ''New@Mail.org'' ?pg" "''NEW@mail.org''"]
  have k2: "registryOk (localStorage (saveEmail ''NEW@mail.org'' (saveEmail ''New@Mail.org'' ?pg)))"
    by simp
  from h' s1 k1 k2 s2 show ?thesis by simp
qed

text \<open>
  C10: the outcome of the name field and of the password field depends on that field's
  value only; the outcome of the email field on the email value and the registry; the
  outcome of confirmPassword on the values of confirmPassword and password. Two pages
  that agree on these have the same outcome, whatever their other values, class lists
  and error texts are.
\<close>

theorem evaluateField_noninterference:
  "((f = Name \<or> f = Password) \<and> inputValue pg1 f = inputValue pg2 f \<longrightarrow>
      evaluateField f pg1 = evaluateField f pg2) \<and>
   (inputValue pg1 Email = inputValue pg2 Email \<and>
    getRegisteredEmails (localStorage pg1) = getRegisteredEmails (localStorage pg2) \<longrightarrow>
      evaluateField Email pg1 = evaluateField Email pg2) \<and>
   (inputValue pg1 ConfirmPassword = inputValue pg2 ConfirmPassword \<and>
    inputValue pg1 Password = inputValue pg2 Password \<longrightarrow>
      evaluateField ConfirmPassword pg1 = evaluateField ConfirmPassword pg2)"
proof (intro conjI impI)
  assume "(f = Name \<or> f = Password) \<and> inputValue pg1 f = inputValue pg2 f"
  then show "evaluateField f pg1 = evaluateField f pg2"
    by (auto simp: evaluateField_firstFailure)
next
  assume "inputValue pg1 Email = inputValue pg2 Email \<and>
    getRegisteredEmails (localStorage pg1) = getRegisteredEmails (localStorage pg2)"
  then show "evaluateField Email pg1 = evaluateField Email pg2"
    by (simp add: evaluateField_firstFailure isEmailRegistered_def)
next
  assume "inputValue pg1 ConfirmPassword = inputValue pg2 ConfirmPassword \<and>
    inputValue pg1 Password = inputValue pg2 Password"
  then show "evaluateField ConfirmPassword pg1 = evaluateField ConfirmPassword pg2"
    by (simp add: evaluateField_firstFailure getFormData_def)
qed

text \<open>
  Two pages with the same password and different other values, one of them with an
  absent registry and one with an empty one.
\<close>

theorem evaluateField_noninterference_witness:
  "evaluateField Password
     (loadedPage \<lparr>name = ''Al'', email = ''a@b.com'', password = ''Password1'', confirmPassword = []\<rparr> None)
   = evaluateField Password
     (loadedPage \<lparr>name = [], email = ''x'', password = ''Password1'', confirmPassword = ''Password1''\<rparr>
        (Some [''a@b.com''])) \<and>
   evaluateField Email
     (loadedPage \<lparr>name = ''Al'', email = ''a@b.com'', password = ''Password1'', confirmPassword = []\<rparr> None)
   = evaluateField Email
     (loadedPage \<lparr>name = [], email = ''a@b.com'', password = [], confirmPassword = ''Password1''\<rparr>
        (Some [])) \<and>
   evaluateField ConfirmPassword
     (loadedPage \<lparr>name = ''Al'', email = ''a@b.com'', password = ''Password1'', confirmPassword = ''Password1''\<rparr> None)
   = evaluateField ConfirmPassword
     (loadedPage \<lparr>name = [], email = ''x'', password = ''Password1'', confirmPassword = ''Password1''\<rparr>
        (Some [''a@b.com'']))"
proof -
  let ?a = "loadedPage \<lparr>name = ''Al'', email = ''a@b.com'', password = ''Password1'', confirmPassword = []\<rparr> None"
  let ?b = "loadedPage \<lparr>name = [], email = ''x'', password = ''Password1'', confirmPassword = ''Password1''\<rparr>
        (Some [''a@b.com''])"
  let ?c = "loadedPage \<lparr>name = [], email = ''a@b.com'', password = [], confirmPassword = ''Password1''\<rparr>
        (Some [])"
  let ?d = "loadedPage \<lparr>name = ''Al'', email = ''a@b.com'', password = ''Password1'', confirmPassword = ''Password1''\<rparr> None"
  have h1: "(Password = Name \<or> Password = Password) \<and> inputValue ?a Password = inputValue ?b Password"
    by (simp add: loadedPage_def)
  have h2: "inputValue ?a Email = inputValue ?c Email \<and>
      getRegisteredEmails (localStorage ?a) = getRegisteredEmails (localStorage ?c)"
    by (simp add: loadedPage_def getRegisteredEmails_def)
  have h3: "inputValue ?d ConfirmPassword = inputValue ?b ConfirmPassword \<and>
      inputValue ?d Password = inputValue ?b Password"
    by (simp add: loadedPage_def)
  from h1 evaluateField_noninterference [of Password ?a ?b]
  have k1: "evaluateField Password ?a = evaluateField Password ?b" by blast
  from h2 evaluateField_noninterference [of Password ?a ?c]
  have k2: "evaluateField Email ?a = evaluateField Email ?c" by blast
  from h3 evaluateField_noninterference [of Password ?d ?b]
  have k3: "evaluateField ConfirmPassword ?d = evaluateField ConfirmPassword ?b" by blast
  from k1 k2 k3 show ?thesis by blast
qed

end
